theory Spec2Isabelle
  imports Main "HOL-Library.AList" "HOL-Library.Sublist" "HOL-Library.Word"
begin

section \<open>Configuration (main.py, lines 26-31)\<close>

definition HISTORY_DIR :: string where
  "HISTORY_DIR = ''chat_history''"

definition MAX_HISTORY_MESSAGES :: nat where
  "MAX_HISTORY_MESSAGES = 10"

definition MAX_TOTAL_CHATS :: nat where
  "MAX_TOTAL_CHATS = 100"

definition LLAMA_CLI_PATH :: string where
  "LLAMA_CLI_PATH = ''/home/viper/llama.cpp/build/bin/llama-cli''"

definition MODEL_PATH :: string where
  "MODEL_PATH = ''/home/viper/llama.cpp/models/zephyr/zephyr.gguf''"

section \<open>Python string operations used by the program\<close>

text \<open>
  Python text is modelled as \<^typ>\<open>string\<close>. \<open>str.strip()\<close> without argument removes
  leading and trailing whitespace; \<open>is_space\<close> lists the characters Python counts as
  whitespace in the 8-bit range (TAB..CR, FS..US, space, NEL, NBSP).
\<close>

definition is_space :: "char \<Rightarrow> bool" where
  "is_space c =
     (let n = (of_char c :: nat)
      in (9 \<le> n \<and> n \<le> 13) \<or> (28 \<le> n \<and> n \<le> 32) \<or> n = 133 \<or> n = 160)"

definition strip :: "string \<Rightarrow> string" where
  "strip s = rev (dropWhile is_space (rev (dropWhile is_space s)))"

text \<open>\<open>sep.join(parts)\<close>.\<close>

fun join_py :: "string \<Rightarrow> string list \<Rightarrow> string" where
  "join_py sep [] = []"
| "join_py sep [p] = p"
| "join_py sep (p # q # ps) = p @ sep @ join_py sep (q # ps)"

text \<open>
  \<open>s.split(sep)\<close>: a scan from the left that cuts at every occurrence of \<open>sep\<close> found
  and resumes behind it; \<open>acc\<close> is the current piece, reversed. Python raises
  ValueError for an empty separator; the program only splits at a non-empty literal, and
  for an empty separator the model never cuts.
\<close>

function split_py :: "string \<Rightarrow> string \<Rightarrow> string \<Rightarrow> string list" where
  "split_py sep acc s =
     (if s = [] then [rev acc]
      else if sep \<noteq> [] \<and> prefix sep s then rev acc # split_py sep [] (drop (length sep) s)
      else split_py sep (hd s # acc) (tl s))"
  by pat_completeness auto
termination
  by (relation "measure (\<lambda>(sep, acc, s). length s)") auto

declare split_py.simps [simp del]

text \<open>\<open>os.path.join(a, b)\<close> for two components, POSIX flavour.\<close>

definition path_join :: "string \<Rightarrow> string \<Rightarrow> string" where
  "path_join a b =
     (if prefix ''/'' b then b
      else if a = [] \<or> suffix ''/'' a then a @ b
      else a @ ''/'' @ b)"

section \<open>Request validation (main.py, lines 50-55)\<close>

definition chat_id_char :: "char \<Rightarrow> bool" where
  "chat_id_char c =
     (c \<in> set ''abcdefghijklmnopqrstuvwxyzABCDEFGHIJKLMNOPQRSTUVWXYZ0123456789_-'')"

text \<open>
  \<open>SafeChatID = constr(strip_whitespace=True, min_length=1, max_length=50,
  pattern='^[a-zA-Z0-9_-]+$')\<close>: the raw value is stripped of surrounding whitespace first
  (modelled by \<open>strip\<close>), then the length and the pattern are checked; the validated
  value is the stripped one, \<open>None\<close> is a rejection.
\<close>

definition SafeChatID :: "string \<Rightarrow> string option" where
  "SafeChatID raw =
     (let v = strip raw
      in if 1 \<le> length v \<and> length v \<le> 50 \<and> list_all chat_id_char v then Some v else None)"

record chat_request =
  message :: string
  chat_id :: string

section \<open>The history files (main.py, lines 78-91)\<close>

record turn =
  user :: string
  assistant :: string

text \<open>
  The dictionary stored per session. \<open>history = None\<close> is a dictionary without the key
  \<open>"history"\<close>; \<open>system_prompt = None\<close> is a missing key or a JSON \<open>null\<close>, which
  \<open>dict.get\<close> does not tell apart.
\<close>

record chat_data =
  system_prompt :: "string option"
  history :: "turn list option"

text \<open>
  A file holds either the JSON text of a session dictionary, or content that
  \<open>json.load\<close> rejects (\<open>Malformed\<close>: anything that is not JSON, and the empty or
  partly written file that an interrupted write leaves behind). The file system is a
  list of regular files keyed by their path.
\<close>

datatype file_content = Document chat_data | Malformed

type_synonym fs = "(string \<times> file_content) list"

datatype error = JSONDecodeError | KeyError string | OSError | HTTPException nat string

definition path_exists :: "fs \<Rightarrow> string \<Rightarrow> bool" where
  "path_exists files p = (map_of files p \<noteq> None)"

definition get_sanitized_history_path :: "string \<Rightarrow> string" where
  "get_sanitized_history_path cid = path_join HISTORY_DIR (cid @ ''.json'')"

definition load_chat_data :: "fs \<Rightarrow> string \<Rightarrow> error + chat_data" where
  "load_chat_data files cid =
     (let history_file = get_sanitized_history_path cid
      in if path_exists files history_file
         then (case map_of files history_file of
                 Some (Document d) \<Rightarrow> Inr d
               | _ \<Rightarrow> Inl JSONDecodeError)
         else Inr \<lparr>system_prompt = None, history = Some []\<rparr>)"

text \<open>
  \<open>open(history_file, "w")\<close> truncates the file, \<open>json.dump\<close> then writes into it.
  The outcome of the write is the environment's: it completes, or \<open>open\<close> raises and
  nothing is touched, or \<open>json.dump\<close> raises after the file has been truncated.
\<close>

datatype write_outcome = WriteOk | OpenFails | DumpFails

definition save_chat_data :: "write_outcome \<Rightarrow> fs \<Rightarrow> string \<Rightarrow> chat_data \<Rightarrow> error option \<times> fs" where
  "save_chat_data w files cid data =
     (let history_file = get_sanitized_history_path cid
      in case w of
           OpenFails \<Rightarrow> (Some OSError, files)
         | DumpFails \<Rightarrow> (Some OSError, AList.update history_file Malformed files)
         | WriteOk \<Rightarrow> (None, AList.update history_file (Document data) files))"

text \<open>
  \<open>delete_history\<close> (lines 203-219), the body under the session's lock; \<open>rm_fails\<close>
  says whether \<open>os.remove\<close> raises OSError.
\<close>

definition delete_history :: "bool \<Rightarrow> fs \<Rightarrow> string \<Rightarrow> (error + string) \<times> fs" where
  "delete_history rm_fails files cid =
     (let history_file = get_sanitized_history_path cid
      in if \<not> path_exists files history_file
         then (Inl (HTTPException 404 ''Chat history not found.''), files)
         else if rm_fails
         then (Inl (HTTPException 500 ''Failed to delete history file.''), files)
         else (Inr (''Chat history '' @ [CHR 0x27] @ cid @ [CHR 0x27] @ '' deleted.''),
               AList.delete history_file files))"

text \<open>
  \<open>os.listdir(d)\<close>: the names of the files directly in directory \<open>d\<close>.
\<close>

definition is_entry :: "string \<Rightarrow> string \<Rightarrow> bool" where
  "is_entry d p =
     (take (length d + 1) p = d @ ''/'' \<and> drop (length d + 1) p \<noteq> [] \<and>
      CHR ''/'' \<notin> set (drop (length d + 1) p))"

definition listdir :: "fs \<Rightarrow> string \<Rightarrow> string list" where
  "listdir files d = map (drop (length d + 1)) (filter (is_entry d) (map fst files))"

text \<open>
  \<open>os.path.splitext(f)[0]\<close> for a name without separator: the name up to its last dot,
  unless only dots stand before that dot.
\<close>

definition splitext_root :: "string \<Rightarrow> string" where
  "splitext_root f =
     (if CHR ''.'' \<in> set f
      then (let root = rev (tl (dropWhile (\<lambda>c. c \<noteq> CHR ''.'') (rev f)))
            in if list_ex (\<lambda>c. c \<noteq> CHR ''.'') root then root else f)
      else f)"

text \<open>\<open>list_chats\<close> (lines 182-192): the session ids known to the service.\<close>

definition list_chats :: "fs \<Rightarrow> string list" where
  "list_chats files =
     (let files_json = filter (\<lambda>f. suffix ''.json'' f) (listdir files HISTORY_DIR)
      in map splitext_root files_json)"

section \<open>Prompt assembly (main.py, lines 99-108 and 172-178)\<close>

text \<open>\<open>xs[-n:]\<close>: the last \<open>n\<close> elements, the whole list when it is shorter or \<open>n = 0\<close>.\<close>

definition tail_slice :: "nat \<Rightarrow> 'a list \<Rightarrow> 'a list" where
  "tail_slice n xs = (if n = 0 then xs else drop (length xs - n) xs)"

text \<open>Line 99: the system prompt and the windowed history of a loaded dictionary.\<close>

definition read_session :: "chat_data \<Rightarrow> string option \<times> turn list" where
  "read_session data =
     (system_prompt data,
      tail_slice MAX_HISTORY_MESSAGES (case history data of None \<Rightarrow> [] | Some h \<Rightarrow> h))"

text \<open>The \<open>for turn in chat_history\<close> loop, appending one part per turn.\<close>

fun add_turns :: "string list \<Rightarrow> turn list \<Rightarrow> string list" where
  "add_turns parts [] = parts"
| "add_turns parts (t # ts) =
     add_turns (parts @ [''### Human: '' @ user t @ ''\<newline>### Assistant: '' @ assistant t]) ts"

text \<open>
  Lines 100-108. \<open>if system_prompt:\<close> is Python truthiness: \<open>None\<close> and the empty
  string are both skipped.
\<close>

definition build_prompt :: "string option \<Rightarrow> turn list \<Rightarrow> string \<Rightarrow> string" where
  "build_prompt sp chat_history msg =
     (let prompt_parts = (case sp of None \<Rightarrow> [] | Some s \<Rightarrow> if s = [] then [] else [s]);
          prompt_parts = add_turns prompt_parts chat_history;
          prompt_parts = prompt_parts @ [''### Human: '' @ msg @ ''\<newline>### Assistant:'']
      in join_py ''\<newline>'' prompt_parts)"

text \<open>Lines 99-108 together: the prompt for a loaded dictionary and a new message.\<close>

definition full_prompt :: "chat_data \<Rightarrow> string \<Rightarrow> string" where
  "full_prompt data msg =
     (let (sp, chat_history) = read_session data in build_prompt sp chat_history msg)"

text \<open>Line 110.\<close>

definition llama_command :: "string \<Rightarrow> string list" where
  "llama_command prompt = [LLAMA_CLI_PATH, ''-m'', MODEL_PATH, ''--prompt'', prompt, ''-n'', ''-1'']"

section \<open>The generation process and the streaming generator (main.py, lines 94-139)\<close>

type_synonym bytes = "8 word list"

text \<open>What the external process does with a command line: its complete standard output,
  its exit status and its standard error.\<close>

record process =
  stdout :: bytes
  returncode :: int
  stderr :: bytes

text \<open>
  The environment of one request: Python's codec (\<open>bytes.decode('utf-8', 'ignore')\<close> and
  \<open>str.encode('utf-8')\<close>), the external program, what other requests do to the files
  while the generation runs and the session's lock is not held, and the outcome of the
  write of line 138.
\<close>

record env =
  decode :: "bytes \<Rightarrow> string"
  encode :: "string \<Rightarrow> bytes"
  create_subprocess_exec :: "string list \<Rightarrow> process"
  meanwhile :: "fs \<Rightarrow> fs"
  disk :: write_outcome

text \<open>
  Lines 113-119: the loop reads one byte at a time, appends it to
  \<open>full_response_bytes\<close> and yields it as a chunk of its own.
\<close>

fun read_tokens :: "bytes \<Rightarrow> bytes \<Rightarrow> bytes list \<Rightarrow> bytes \<times> bytes list" where
  "read_tokens [] full_response_bytes out = (full_response_bytes, out)"
| "read_tokens (token # rest) full_response_bytes out =
     read_tokens rest (full_response_bytes @ [token]) (out @ [[token]])"

definition error_message :: "string \<Rightarrow> string" where
  "error_message err =
     ''\<newline>\<newline>[ERROR] Model execution failed. Details:\<newline>'' @ err @ ''\<newline>''"

text \<open>
  Line 129, after decoding: \<open>text.split("### Assistant:")[-1].strip()\<close>. The list that
  \<open>split\<close> returns is never empty, so \<open>[-1]\<close> is its last element.
\<close>

definition assistant_response :: "string \<Rightarrow> string" where
  "assistant_response out_text = strip (last (split_py ''### Assistant:'' [] out_text))"

text \<open>Lines 134-139, the block under the lock: load, append, truncate, save.\<close>

definition persist_turn :: "write_outcome \<Rightarrow> fs \<Rightarrow> chat_request \<Rightarrow> string \<Rightarrow> error option \<times> fs" where
  "persist_turn w files req answer =
     (case load_chat_data files (chat_id req) of
        Inl e \<Rightarrow> (Some e, files)
      | Inr final_chat_data \<Rightarrow>
          (case history final_chat_data of
             None \<Rightarrow> (Some (KeyError ''history''), files)
           | Some h \<Rightarrow>
               save_chat_data w files (chat_id req)
                 (final_chat_data\<lparr>history :=
                    Some (tail_slice MAX_HISTORY_MESSAGES
                            (h @ [\<lparr>user = message req, assistant = answer\<rparr>]))\<rparr>)))"

text \<open>
  What one run of the generator does: the chunks it yields in order, the exception it
  ends with if any, and the files when it is done.
\<close>

record stream_result =
  yielded :: "bytes list"
  raised :: "error option"
  files_after :: fs

definition stream_llama_response :: "env \<Rightarrow> fs \<Rightarrow> chat_request \<Rightarrow> stream_result" where
  "stream_llama_response e files req =
     (case load_chat_data files (chat_id req) of
        Inl err \<Rightarrow> \<lparr>yielded = [], raised = Some err, files_after = files\<rparr>
      | Inr data \<Rightarrow>
          (let command = llama_command (full_prompt data (message req));
               proc = create_subprocess_exec e command;
               (full_response_bytes, tokens) = read_tokens (stdout proc) [] [];
               files1 = meanwhile e files
           in if returncode proc \<noteq> 0
              then \<lparr>yielded = tokens @ [encode e (error_message (strip (decode e (stderr proc))))],
                    raised = None, files_after = files1\<rparr>
              else (let answer = assistant_response (decode e full_response_bytes)
                    in if answer = []
                       then \<lparr>yielded = tokens, raised = None, files_after = files1\<rparr>
                       else (case persist_turn (disk e) files1 req answer of
                               (err, files2) \<Rightarrow>
                                 \<lparr>yielded = tokens, raised = err, files_after = files2\<rparr>))))"

text \<open>
  A run of finalize steps on one session, one per turn, each with a write that completes
  and with no other change to the files in between; it stops at the first step that
  raises.
\<close>

fun append_turns :: "fs \<Rightarrow> string \<Rightarrow> turn list \<Rightarrow> error option \<times> fs" where
  "append_turns files cid [] = (None, files)"
| "append_turns files cid (t # ts) =
     (case persist_turn WriteOk files \<lparr>message = user t, chat_id = cid\<rparr> (assistant t) of
        (None, files') \<Rightarrow> append_turns files' cid ts
      | (Some err, files') \<Rightarrow> (Some err, files'))"

section \<open>The chat endpoint (main.py, lines 153-180)\<close>

datatype response = PlainTextResponse string | StreamingResponse stream_result

definition chat :: "env \<Rightarrow> fs \<Rightarrow> chat_request \<Rightarrow> bool \<Rightarrow> (error + response) \<times> fs" where
  "chat e files req dry_run =
     (let history_path = get_sanitized_history_path (chat_id req);
          is_new_chat = \<not> path_exists files history_path
      in if is_new_chat \<and> MAX_TOTAL_CHATS \<le> length (listdir files HISTORY_DIR)
         then (Inl (HTTPException 429 ''The maximum number of chat sessions has been reached.''),
               files)
         else if dry_run
         then (case load_chat_data files (chat_id req) of
                 Inl err \<Rightarrow> (Inl err, files)
               | Inr data \<Rightarrow>
                   (Inr (PlainTextResponse (full_prompt data (message req))), files))
         else (let r = stream_llama_response e files req
               in (Inr (StreamingResponse r), files_after r)))"

section \<open>A concrete environment for evaluating the model\<close>

text \<open>
  A codec that maps every byte to the character of the same code, an external program
  that ignores its command line, and a request environment built from them.
\<close>

definition latin1_decode :: "bytes \<Rightarrow> string" where
  "latin1_decode bs = map (\<lambda>b. char_of (unat b)) bs"

definition latin1_encode :: "string \<Rightarrow> bytes" where
  "latin1_encode s = map of_char s"

definition fixed_env :: "process \<Rightarrow> (fs \<Rightarrow> fs) \<Rightarrow> write_outcome \<Rightarrow> env" where
  "fixed_env proc others w =
     \<lparr>decode = latin1_decode, encode = latin1_encode,
      create_subprocess_exec = (\<lambda>command. proc), meanwhile = others, disk = w\<rparr>"

text \<open>
  A history directory with one hundred sessions \<open>00\<close> to \<open>99\<close>, and eleven turns.
\<close>

definition full_store :: fs where
  "full_store =
     map (\<lambda>name. (''chat_history/'' @ name @ ''.json'',
                   Document \<lparr>system_prompt = None, history = Some []\<rparr>))
       (concat (map (\<lambda>x. map (\<lambda>y. [x, y]) ''0123456789'') ''0123456789''))"

definition eleven_turns :: "turn list" where
  "eleven_turns = map (\<lambda>c. \<lparr>user = [c], assistant = [c, c]\<rparr>) ''abcdefghijk''"

section \<open>Session identifiers and paths\<close>

lemma not_chat_id_char_slash: "\<not> chat_id_char (CHR ''/'')"
  by (simp add: chat_id_char_def)

lemma SafeChatID_SomeD:
  assumes "SafeChatID raw = Some cid"
  shows "cid \<noteq> []" and "length cid \<le> 50" and "list_all chat_id_char cid"
  using assms by (auto simp: SafeChatID_def Let_def split: if_splits)

lemma safe_id_no_slash:
  assumes "list_all chat_id_char cid"
  shows "CHR ''/'' \<notin> set cid"
  using assms not_chat_id_char_slash by (auto simp: list_all_iff)

lemma history_path_eq:
  assumes "cid \<noteq> []" and "list_all chat_id_char cid"
  shows "get_sanitized_history_path cid = HISTORY_DIR @ ''/'' @ cid @ ''.json''"
proof -
  from assms obtain c cs where cid: "cid = c # cs" and c: "chat_id_char c"
    by (cases cid) auto
  from c have "c \<noteq> CHR ''/''" using not_chat_id_char_slash by auto
  then show ?thesis
    by (simp add: get_sanitized_history_path_def path_join_def HISTORY_DIR_def cid suffix_def)
qed

lemma history_path_literal:
  "get_sanitized_history_path ''abc'' = ''chat_history/abc.json''"
  by (simp add: get_sanitized_history_path_def path_join_def HISTORY_DIR_def suffix_to_prefix)

lemma SafeChatID_abc: "SafeChatID ''abc'' = Some ''abc''"
  by (simp add: SafeChatID_def strip_def is_space_def chat_id_char_def)

lemma map_of_update_other: "p \<noteq> q \<Longrightarrow> map_of (AList.update q v files) p = map_of files p"
  by (simp add: update_conv')

lemma map_of_delete_other: "p \<noteq> q \<Longrightarrow> map_of (AList.delete q files) p = map_of files p"
  by (simp add: delete_conv')

lemma save_touches_only_path:
  "p \<noteq> get_sanitized_history_path cid \<Longrightarrow>
   map_of (snd (save_chat_data w files cid d)) p = map_of files p"
  by (cases w) (simp_all add: save_chat_data_def Let_def map_of_update_other)

lemma delete_touches_only_path:
  "p \<noteq> get_sanitized_history_path cid \<Longrightarrow>
   map_of (snd (delete_history b files cid)) p = map_of files p"
  by (simp add: delete_history_def Let_def map_of_delete_other)

lemma load_reads_only_path:
  "map_of files' (get_sanitized_history_path cid) = map_of files (get_sanitized_history_path cid)
   \<Longrightarrow> load_chat_data files' cid = load_chat_data files cid"
  by (simp add: load_chat_data_def Let_def path_exists_def)

text \<open>
  Claim C9. For every session id that the validation accepts, the history path is the
  history directory, one separator and the file name \<open>id.json\<close>; that file name
  holds no separator and is neither \<open>.\<close> nor \<open>..\<close>, so the path names an entry directly
  inside the history directory. Loading depends on the content of that path only, and
  saving and deleting leave every other path as it was.
\<close>

theorem history_path_inside_dir:
  assumes "SafeChatID raw = Some cid"
  shows "get_sanitized_history_path cid = HISTORY_DIR @ ''/'' @ cid @ ''.json''
       \<and> CHR ''/'' \<notin> set (cid @ ''.json'')
       \<and> cid @ ''.json'' \<noteq> ''..'' \<and> cid @ ''.json'' \<noteq> ''.''
       \<and> is_entry HISTORY_DIR (get_sanitized_history_path cid)
       \<and> (\<forall>files files'.
             map_of files' (get_sanitized_history_path cid)
               = map_of files (get_sanitized_history_path cid)
             \<longrightarrow> load_chat_data files' cid = load_chat_data files cid)
       \<and> (\<forall>p w files d. p \<noteq> get_sanitized_history_path cid
             \<longrightarrow> map_of (snd (save_chat_data w files cid d)) p = map_of files p)
       \<and> (\<forall>p b files. p \<noteq> get_sanitized_history_path cid
             \<longrightarrow> map_of (snd (delete_history b files cid)) p = map_of files p)"
proof -
  note id = SafeChatID_SomeD [OF assms]
  have path: "get_sanitized_history_path cid = HISTORY_DIR @ ''/'' @ cid @ ''.json''"
    using id(1,3) by (rule history_path_eq)
  have noslash: "CHR ''/'' \<notin> set (cid @ ''.json'')"
    using safe_id_no_slash [OF id(3)] by simp
  have nodots: "cid @ ''.json'' \<noteq> ''..''" "cid @ ''.json'' \<noteq> ''.''"
    using id(1) by (cases cid; simp)+
  have entry: "is_entry HISTORY_DIR (get_sanitized_history_path cid)"
    using noslash by (simp add: is_entry_def path)
  show ?thesis
    using path noslash nodots entry load_reads_only_path save_touches_only_path
      delete_touches_only_path by blast
qed

theorem history_path_inside_dir_witness:
  "SafeChatID '' my-chat_01 '' = Some ''my-chat_01''
   \<and> get_sanitized_history_path ''my-chat_01'' = ''chat_history/my-chat_01.json''
   \<and> ''/etc/passwd'' \<noteq> get_sanitized_history_path ''my-chat_01''
   \<and> map_of (snd (save_chat_data WriteOk [(''/etc/passwd'', Malformed)] ''my-chat_01''
                     \<lparr>system_prompt = None, history = Some []\<rparr>)) ''/etc/passwd''
       = Some Malformed
   \<and> map_of (snd (delete_history False
                     [(''chat_history/my-chat_01.json'', Malformed), (''/etc/passwd'', Malformed)]
                     ''my-chat_01'')) ''/etc/passwd''
       = Some Malformed"
proof -
  have h: "SafeChatID '' my-chat_01 '' = Some ''my-chat_01''"
    by (simp add: SafeChatID_def strip_def is_space_def chat_id_char_def)
  note t = history_path_inside_dir [OF h]
  from t have p: "get_sanitized_history_path ''my-chat_01'' = ''chat_history/my-chat_01.json''"
    by (simp add: HISTORY_DIR_def)
  then have ne: "''/etc/passwd'' \<noteq> get_sanitized_history_path ''my-chat_01''" by simp
  from t ne have
    "map_of (snd (save_chat_data WriteOk [(''/etc/passwd'', Malformed)] ''my-chat_01''
                     \<lparr>system_prompt = None, history = Some []\<rparr>)) ''/etc/passwd''
       = map_of [(''/etc/passwd'', Malformed)] ''/etc/passwd''"
    by blast
  moreover from t ne have
    "map_of (snd (delete_history False
                     [(''chat_history/my-chat_01.json'', Malformed), (''/etc/passwd'', Malformed)]
                     ''my-chat_01'')) ''/etc/passwd''
       = map_of [(''chat_history/my-chat_01.json'', Malformed), (''/etc/passwd'', Malformed)]
           ''/etc/passwd''"
    by blast
  ultimately show ?thesis using h p ne by simp
qed

section \<open>Loading a session\<close>

text \<open>
  Claim C4, as stated, fails: the identifier \<open>abc\<close> is accepted by the validation, and
  with a file at its path that \<open>json.load\<close> rejects, \<open>load_chat_data\<close> ends with the
  parser's exception instead of the empty record.
\<close>

theorem load_corrupt_counterexample:
  "SafeChatID ''abc'' = Some ''abc''
   \<and> load_chat_data [(''chat_history/abc.json'', Malformed)] ''abc'' = Inl JSONDecodeError"
  by (simp add: SafeChatID_abc load_chat_data_def history_path_literal path_exists_def)

text \<open>
  Claim C4, amended. For every session id, \<open>load_chat_data\<close> returns the empty record
  (null system prompt, empty history) when no file exists at the session's path, and the
  stored dictionary when the file holds one; when the file is malformed the parser's
  exception reaches the caller.
\<close>

theorem load_chat_data_cases:
  "(\<not> path_exists files (get_sanitized_history_path cid)
      \<longrightarrow> load_chat_data files cid = Inr \<lparr>system_prompt = None, history = Some []\<rparr>)
   \<and> (map_of files (get_sanitized_history_path cid) = Some (Document d)
      \<longrightarrow> load_chat_data files cid = Inr d)
   \<and> (map_of files (get_sanitized_history_path cid) = Some Malformed
      \<longrightarrow> load_chat_data files cid = Inl JSONDecodeError)"
  by (simp add: load_chat_data_def Let_def path_exists_def)

theorem load_chat_data_cases_witness:
  "\<not> path_exists [] (get_sanitized_history_path ''abc'')
   \<and> load_chat_data [] ''abc'' = Inr \<lparr>system_prompt = None, history = Some []\<rparr>
   \<and> map_of [(''chat_history/abc.json'',
               Document \<lparr>system_prompt = Some ''Be terse.'', history = Some []\<rparr>)]
        (get_sanitized_history_path ''abc'')
       = Some (Document \<lparr>system_prompt = Some ''Be terse.'', history = Some []\<rparr>)
   \<and> load_chat_data [(''chat_history/abc.json'',
                       Document \<lparr>system_prompt = Some ''Be terse.'', history = Some []\<rparr>)] ''abc''
       = Inr \<lparr>system_prompt = Some ''Be terse.'', history = Some []\<rparr>
   \<and> map_of [(''chat_history/abc.json'', Malformed)] (get_sanitized_history_path ''abc'')
       = Some Malformed
   \<and> load_chat_data [(''chat_history/abc.json'', Malformed)] ''abc'' = Inl JSONDecodeError"
proof -
  have a: "\<not> path_exists [] (get_sanitized_history_path ''abc'')"
    by (simp add: path_exists_def)
  have b: "map_of [(''chat_history/abc.json'',
               Document \<lparr>system_prompt = Some ''Be terse.'', history = Some []\<rparr>)]
        (get_sanitized_history_path ''abc'')
       = Some (Document \<lparr>system_prompt = Some ''Be terse.'', history = Some []\<rparr>)"
    by (simp add: history_path_literal)
  have c: "map_of [(''chat_history/abc.json'', Malformed)] (get_sanitized_history_path ''abc'')
       = Some Malformed"
    by (simp add: history_path_literal)
  from a load_chat_data_cases [of "[]" "''abc''"]
  have a': "load_chat_data [] ''abc'' = Inr \<lparr>system_prompt = None, history = Some []\<rparr>"
    by blast
  from b load_chat_data_cases
  have b': "load_chat_data [(''chat_history/abc.json'',
                       Document \<lparr>system_prompt = Some ''Be terse.'', history = Some []\<rparr>)] ''abc''
       = Inr \<lparr>system_prompt = Some ''Be terse.'', history = Some []\<rparr>"
    by blast
  from c load_chat_data_cases
  have c': "load_chat_data [(''chat_history/abc.json'', Malformed)] ''abc'' = Inl JSONDecodeError"
    by blast
  from a b c a' b' c' show ?thesis by blast
qed

lemma load_empty_abc:
  "load_chat_data [] ''abc'' = Inr \<lparr>system_prompt = None, history = Some []\<rparr>"
  by (simp add: load_chat_data_def path_exists_def)

section \<open>Prompt assembly\<close>

lemma read_tokens_eq:
  "read_tokens bs full out = (full @ bs, out @ map (\<lambda>b. [b]) bs)"
  by (induction bs arbitrary: full out) simp_all

lemma add_turns_eq:
  "add_turns parts ts =
     parts @ map (\<lambda>t. ''### Human: '' @ user t @ ''\<newline>### Assistant: '' @ assistant t) ts"
  by (induction ts arbitrary: parts) simp_all

lemma full_prompt_closed:
  "full_prompt data msg =
     join_py ''\<newline>''
       ((case system_prompt data of None \<Rightarrow> [] | Some s \<Rightarrow> if s = [] then [] else [s])
        @ map (\<lambda>t. ''### Human: '' @ user t @ ''\<newline>### Assistant: '' @ assistant t)
            (drop (length (case history data of None \<Rightarrow> [] | Some h \<Rightarrow> h) - 10)
               (case history data of None \<Rightarrow> [] | Some h \<Rightarrow> h))
        @ [''### Human: '' @ msg @ ''\<newline>### Assistant:''])"
  by (simp add: full_prompt_def read_session_def tail_slice_def MAX_HISTORY_MESSAGES_def
      build_prompt_def Let_def add_turns_eq)

lemma dry_run_prompt:
  assumes "load_chat_data files (chat_id req) = Inr data"
    and "path_exists files (get_sanitized_history_path (chat_id req))
         \<or> length (listdir files HISTORY_DIR) < MAX_TOTAL_CHATS"
  shows "chat e files req True = (Inr (PlainTextResponse (full_prompt data (message req))), files)"
  using assms by (auto simp: chat_def Let_def)

lemma stream_uses_prompt:
  assumes "load_chat_data files (chat_id req) = Inr data"
  shows "stream_llama_response e files req
       = stream_llama_response
           (e\<lparr>create_subprocess_exec := \<lambda>command. create_subprocess_exec e
                 [LLAMA_CLI_PATH, ''-m'', MODEL_PATH, ''--prompt'',
                  full_prompt data (message req), ''-n'', ''-1'']\<rparr>) files req"
  by (simp add: stream_llama_response_def assms llama_command_def Let_def read_tokens_eq)

text \<open>
  Claim C3, as stated, fails: the prompt for no system prompt, no history and the message
  \<open>hello\<close> is not \<open>Human: hello\<close>, newline, \<open>Assistant:\<close>, and the prompt of the second
  scenario is not the text the claim gives; the program writes \<open>###\<close> and a space in
  front of every role.
\<close>

theorem prompt_template_counterexample:
  "build_prompt None [] ''hello'' \<noteq> ''Human: hello\<newline>Assistant:''
   \<and> build_prompt (Some ''Be terse.'') [\<lparr>user = ''hi'', assistant = ''hey''\<rparr>] ''how are you''
       \<noteq> ''Be terse.\<newline>Human: hi\<newline>Assistant: hey\<newline>Human: how are you\<newline>Assistant:''"
  by (simp add: build_prompt_def)

text \<open>
  Claim C3, amended. The prompt for a stored record and a new message is the
  newline-join of: the record's system prompt first if it is present and not empty; then
  one segment per windowed turn (the last ten turns of the record's history), formatted
  \<open>### Human: user\<close>, newline, \<open>### Assistant: assistant\<close>; then a final segment
  \<open>### Human: message\<close>, newline, \<open>### Assistant:\<close> with no assistant content. An
  admitted dry run on a session that loads returns exactly that prompt and leaves the
  files alone, and the generator passes exactly that prompt to the external program. For
  an empty store, session \<open>abc\<close> and message \<open>hello\<close> the prompt is exactly
  \<open>### Human: hello\<close>, newline, \<open>### Assistant:\<close>; for a stored session with system
  prompt \<open>Be terse.\<close> and one prior turn (hi, hey) and the message \<open>how are you\<close> it is
  the five lines \<open>Be terse.\<close>, \<open>### Human: hi\<close>, \<open>### Assistant: hey\<close>,
  \<open>### Human: how are you\<close>, \<open>### Assistant:\<close>; of eleven stored turns the first is
  left out.
\<close>

theorem prompt_assembly:
  "build_prompt sp chat_history msg =
     join_py ''\<newline>''
       ((case sp of None \<Rightarrow> [] | Some s \<Rightarrow> if s = [] then [] else [s])
        @ map (\<lambda>t. ''### Human: '' @ user t @ ''\<newline>### Assistant: '' @ assistant t) chat_history
        @ [''### Human: '' @ msg @ ''\<newline>### Assistant:''])
   \<and> fst (chat e [] \<lparr>message = ''hello'', chat_id = ''abc''\<rparr> True)
       = Inr (PlainTextResponse ''### Human: hello\<newline>### Assistant:'')
   \<and> build_prompt (Some ''Be terse.'') [\<lparr>user = ''hi'', assistant = ''hey''\<rparr>] ''how are you''
       = ''Be terse.\<newline>### Human: hi\<newline>### Assistant: hey\<newline>### Human: how are you\<newline>### Assistant:''
   \<and> full_prompt data msg =
       join_py ''\<newline>''
         ((case system_prompt data of None \<Rightarrow> [] | Some s \<Rightarrow> if s = [] then [] else [s])
          @ map (\<lambda>t. ''### Human: '' @ user t @ ''\<newline>### Assistant: '' @ assistant t)
              (drop (length (case history data of None \<Rightarrow> [] | Some h \<Rightarrow> h) - 10)
                 (case history data of None \<Rightarrow> [] | Some h \<Rightarrow> h))
          @ [''### Human: '' @ msg @ ''\<newline>### Assistant:''])
   \<and> (load_chat_data files (chat_id req) = Inr stored
        \<and> (path_exists files (get_sanitized_history_path (chat_id req))
             \<or> length (listdir files HISTORY_DIR) < MAX_TOTAL_CHATS)
      \<longrightarrow> chat e files req True
            = (Inr (PlainTextResponse (full_prompt stored (message req))), files))
   \<and> (load_chat_data files (chat_id req) = Inr stored
      \<longrightarrow> stream_llama_response e files req
            = stream_llama_response
                (e\<lparr>create_subprocess_exec := \<lambda>command. create_subprocess_exec e
                      [LLAMA_CLI_PATH, ''-m'', MODEL_PATH, ''--prompt'',
                       full_prompt stored (message req), ''-n'', ''-1'']\<rparr>) files req)
   \<and> chat e [(''chat_history/abc.json'',
               Document \<lparr>system_prompt = Some ''Be terse.'',
                         history = Some [\<lparr>user = ''hi'', assistant = ''hey''\<rparr>]\<rparr>)]
         \<lparr>message = ''how are you'', chat_id = ''abc''\<rparr> True
       = (Inr (PlainTextResponse
            ''Be terse.\<newline>### Human: hi\<newline>### Assistant: hey\<newline>### Human: how are you\<newline>### Assistant:''),
          [(''chat_history/abc.json'',
            Document \<lparr>system_prompt = Some ''Be terse.'',
                      history = Some [\<lparr>user = ''hi'', assistant = ''hey''\<rparr>]\<rparr>)])
   \<and> full_prompt \<lparr>system_prompt = None, history = Some eleven_turns\<rparr> ''hello''
       = build_prompt None (tl eleven_turns) ''hello''"
proof (intro conjI)
  show "build_prompt sp chat_history msg =
     join_py ''\<newline>''
       ((case sp of None \<Rightarrow> [] | Some s \<Rightarrow> if s = [] then [] else [s])
        @ map (\<lambda>t. ''### Human: '' @ user t @ ''\<newline>### Assistant: '' @ assistant t) chat_history
        @ [''### Human: '' @ msg @ ''\<newline>### Assistant:''])"
    by (simp add: build_prompt_def Let_def add_turns_eq)
  show "fst (chat e [] \<lparr>message = ''hello'', chat_id = ''abc''\<rparr> True)
       = Inr (PlainTextResponse ''### Human: hello\<newline>### Assistant:'')"
    by (simp add: chat_def Let_def path_exists_def listdir_def MAX_TOTAL_CHATS_def
        load_chat_data_def full_prompt_def read_session_def tail_slice_def build_prompt_def)
  show "build_prompt (Some ''Be terse.'') [\<lparr>user = ''hi'', assistant = ''hey''\<rparr>] ''how are you''
       = ''Be terse.\<newline>### Human: hi\<newline>### Assistant: hey\<newline>### Human: how are you\<newline>### Assistant:''"
    by (simp add: build_prompt_def)
  show "full_prompt data msg =
       join_py ''\<newline>''
         ((case system_prompt data of None \<Rightarrow> [] | Some s \<Rightarrow> if s = [] then [] else [s])
          @ map (\<lambda>t. ''### Human: '' @ user t @ ''\<newline>### Assistant: '' @ assistant t)
              (drop (length (case history data of None \<Rightarrow> [] | Some h \<Rightarrow> h) - 10)
                 (case history data of None \<Rightarrow> [] | Some h \<Rightarrow> h))
          @ [''### Human: '' @ msg @ ''\<newline>### Assistant:''])"
    by (rule full_prompt_closed)
  show "load_chat_data files (chat_id req) = Inr stored
        \<and> (path_exists files (get_sanitized_history_path (chat_id req))
             \<or> length (listdir files HISTORY_DIR) < MAX_TOTAL_CHATS)
      \<longrightarrow> chat e files req True
            = (Inr (PlainTextResponse (full_prompt stored (message req))), files)"
    using dry_run_prompt by blast
  show "load_chat_data files (chat_id req) = Inr stored
      \<longrightarrow> stream_llama_response e files req
            = stream_llama_response
                (e\<lparr>create_subprocess_exec := \<lambda>command. create_subprocess_exec e
                      [LLAMA_CLI_PATH, ''-m'', MODEL_PATH, ''--prompt'',
                       full_prompt stored (message req), ''-n'', ''-1'']\<rparr>) files req"
    using stream_uses_prompt by blast
  show "chat e [(''chat_history/abc.json'',
               Document \<lparr>system_prompt = Some ''Be terse.'',
                         history = Some [\<lparr>user = ''hi'', assistant = ''hey''\<rparr>]\<rparr>)]
         \<lparr>message = ''how are you'', chat_id = ''abc''\<rparr> True
       = (Inr (PlainTextResponse
            ''Be terse.\<newline>### Human: hi\<newline>### Assistant: hey\<newline>### Human: how are you\<newline>### Assistant:''),
          [(''chat_history/abc.json'',
            Document \<lparr>system_prompt = Some ''Be terse.'',
                      history = Some [\<lparr>user = ''hi'', assistant = ''hey''\<rparr>]\<rparr>)])"
    by (simp add: chat_def Let_def path_exists_def history_path_literal load_chat_data_def
        full_prompt_closed)
  show "full_prompt \<lparr>system_prompt = None, history = Some eleven_turns\<rparr> ''hello''
       = build_prompt None (tl eleven_turns) ''hello''"
    by code_simp
qed

theorem prompt_assembly_witness:
  "load_chat_data
      [(''chat_history/abc.json'',
        Document \<lparr>system_prompt = Some ''Be terse.'',
                  history = Some [\<lparr>user = ''hi'', assistant = ''hey''\<rparr>]\<rparr>)]
      (chat_id \<lparr>message = ''how are you'', chat_id = ''abc''\<rparr>)
     = Inr \<lparr>system_prompt = Some ''Be terse.'',
            history = Some [\<lparr>user = ''hi'', assistant = ''hey''\<rparr>]\<rparr>
   \<and> path_exists
        [(''chat_history/abc.json'',
          Document \<lparr>system_prompt = Some ''Be terse.'',
                    history = Some [\<lparr>user = ''hi'', assistant = ''hey''\<rparr>]\<rparr>)]
        (get_sanitized_history_path (chat_id \<lparr>message = ''how are you'', chat_id = ''abc''\<rparr>))
   \<and> fst (chat (fixed_env \<lparr>stdout = [], returncode = 0, stderr = []\<rparr> id WriteOk)
        [(''chat_history/abc.json'',
          Document \<lparr>system_prompt = Some ''Be terse.'',
                    history = Some [\<lparr>user = ''hi'', assistant = ''hey''\<rparr>]\<rparr>)]
        \<lparr>message = ''how are you'', chat_id = ''abc''\<rparr> True)
       = Inr (PlainTextResponse
           (full_prompt \<lparr>system_prompt = Some ''Be terse.'',
                         history = Some [\<lparr>user = ''hi'', assistant = ''hey''\<rparr>]\<rparr>
              ''how are you''))
   \<and> full_prompt \<lparr>system_prompt = Some ''Be terse.'',
                    history = Some [\<lparr>user = ''hi'', assistant = ''hey''\<rparr>]\<rparr> ''how are you''
       = ''Be terse.\<newline>### Human: hi\<newline>### Assistant: hey\<newline>### Human: how are you\<newline>### Assistant:''
   \<and> yielded (stream_llama_response
        \<lparr>decode = latin1_decode, encode = latin1_encode,
         create_subprocess_exec = (\<lambda>command. \<lparr>stdout = latin1_encode (command ! 4),
                                                 returncode = 0, stderr = []\<rparr>),
         meanwhile = id, disk = WriteOk\<rparr>
        [(''chat_history/abc.json'',
          Document \<lparr>system_prompt = Some ''Be terse.'',
                    history = Some [\<lparr>user = ''hi'', assistant = ''hey''\<rparr>]\<rparr>)]
        \<lparr>message = ''how are you'', chat_id = ''abc''\<rparr>)
       = map (\<lambda>b. [b]) (latin1_encode
           ''Be terse.\<newline>### Human: hi\<newline>### Assistant: hey\<newline>### Human: how are you\<newline>### Assistant:'')"
proof -
  let ?D = "\<lparr>system_prompt = Some ''Be terse.'',
            history = Some [\<lparr>user = ''hi'', assistant = ''hey''\<rparr>]\<rparr>"
  let ?S = "[(''chat_history/abc.json'', Document ?D)]"
  let ?R = "\<lparr>message = ''how are you'', chat_id = ''abc''\<rparr>"
  let ?E = "fixed_env \<lparr>stdout = [], returncode = 0, stderr = []\<rparr> id WriteOk"
  let ?G = "\<lparr>decode = latin1_decode, encode = latin1_encode,
         create_subprocess_exec = (\<lambda>command. \<lparr>stdout = latin1_encode (command ! 4),
                                                 returncode = 0, stderr = []\<rparr>),
         meanwhile = id, disk = WriteOk\<rparr>"
  let ?L = "''Be terse.\<newline>### Human: hi\<newline>### Assistant: hey\<newline>### Human: how are you\<newline>### Assistant:''"
  have h1: "load_chat_data ?S (chat_id ?R) = Inr ?D"
    by (simp add: load_chat_data_def history_path_literal path_exists_def)
  have h2: "path_exists ?S (get_sanitized_history_path (chat_id ?R))"
    by (simp add: history_path_literal path_exists_def)
  note t = prompt_assembly [where files = ?S and req = ?R and stored = ?D and e = ?E
      and data = ?D and msg = "''how are you''"]
  from t h1 h2 have c: "chat ?E ?S ?R True
      = (Inr (PlainTextResponse (full_prompt ?D (message ?R))), ?S)"
    by blast
  from t have "full_prompt ?D ''how are you'' =
       join_py ''\<newline>''
         ((case system_prompt ?D of None \<Rightarrow> [] | Some s \<Rightarrow> if s = [] then [] else [s])
          @ map (\<lambda>t. ''### Human: '' @ user t @ ''\<newline>### Assistant: '' @ assistant t)
              (drop (length (case history ?D of None \<Rightarrow> [] | Some h \<Rightarrow> h) - 10)
                 (case history ?D of None \<Rightarrow> [] | Some h \<Rightarrow> h))
          @ [''### Human: '' @ ''how are you'' @ ''\<newline>### Assistant:''])"
    by blast
  then have f: "full_prompt ?D ''how are you'' = ?L" by simp
  note u = prompt_assembly [where files = ?S and req = ?R and stored = ?D and e = ?G]
  from u h1 have "stream_llama_response ?G ?S ?R
      = stream_llama_response
          (?G\<lparr>create_subprocess_exec := \<lambda>command. create_subprocess_exec ?G
                [LLAMA_CLI_PATH, ''-m'', MODEL_PATH, ''--prompt'',
                 full_prompt ?D (message ?R), ''-n'', ''-1'']\<rparr>) ?S ?R"
    by blast
  then have y: "yielded (stream_llama_response ?G ?S ?R) = map (\<lambda>b. [b]) (latin1_encode ?L)"
    using f h1
    by (simp add: stream_llama_response_def Let_def read_tokens_eq split: prod.splits)
  from h1 h2 c f y show ?thesis by simp
qed

section \<open>A failed generation\<close>

text \<open>
  Claim C1. When the session loads and the external process exits with a non-zero
  status, the generator yields every byte of the process's standard output as a chunk of
  its own and then one more chunk, the encoded error notice, which holds the process's
  standard-error text (decoded and trimmed, as line 123 computes it) between
  \<open>[ERROR] Model execution failed. Details:\<close> and a final newline. The generator ends
  without an exception and writes nothing: the files afterwards are the files as the
  other requests left them, so with no other writer the stored record of the session is
  the one from before the call.
\<close>

theorem failed_generation_notice:
  assumes load: "load_chat_data files (chat_id req) = Inr data"
    and proc: "proc = create_subprocess_exec e (llama_command (full_prompt data (message req)))"
    and fail: "returncode proc \<noteq> 0"
  shows "yielded (stream_llama_response e files req)
           = map (\<lambda>b. [b]) (stdout proc)
             @ [encode e (''\<newline>\<newline>[ERROR] Model execution failed. Details:\<newline>''
                          @ strip (decode e (stderr proc)) @ ''\<newline>'')]
       \<and> raised (stream_llama_response e files req) = None
       \<and> files_after (stream_llama_response e files req) = meanwhile e files
       \<and> (meanwhile e files = files \<longrightarrow>
            load_chat_data (files_after (stream_llama_response e files req)) (chat_id req)
              = load_chat_data files (chat_id req))"
  using fail unfolding proc
  by (simp add: stream_llama_response_def load Let_def read_tokens_eq error_message_def)

theorem failed_generation_notice_witness:
  "load_chat_data [] (chat_id \<lparr>message = ''hello'', chat_id = ''abc''\<rparr>)
     = Inr \<lparr>system_prompt = None, history = Some []\<rparr>
   \<and> returncode \<lparr>stdout = [72, 105], returncode = 1, stderr = latin1_encode '' oom\<newline>''\<rparr> \<noteq> 0
   \<and> yielded (stream_llama_response
        (fixed_env \<lparr>stdout = [72, 105], returncode = 1, stderr = latin1_encode '' oom\<newline>''\<rparr> id WriteOk)
        [] \<lparr>message = ''hello'', chat_id = ''abc''\<rparr>)
       = [[72], [105],
          latin1_encode ''\<newline>\<newline>[ERROR] Model execution failed. Details:\<newline>oom\<newline>'']
   \<and> files_after (stream_llama_response
        (fixed_env \<lparr>stdout = [72, 105], returncode = 1, stderr = latin1_encode '' oom\<newline>''\<rparr> id WriteOk)
        [] \<lparr>message = ''hello'', chat_id = ''abc''\<rparr>) = []"
proof -
  let ?P = "\<lparr>stdout = [72, 105], returncode = 1, stderr = latin1_encode '' oom\<newline>''\<rparr>"
  let ?E = "fixed_env ?P id WriteOk"
  let ?R = "\<lparr>message = ''hello'', chat_id = ''abc''\<rparr>"
  have h1: "load_chat_data [] (chat_id ?R) = Inr \<lparr>system_prompt = None, history = Some []\<rparr>"
    by (simp add: load_empty_abc)
  have h2: "?P = create_subprocess_exec ?E
              (llama_command (full_prompt \<lparr>system_prompt = None, history = Some []\<rparr> (message ?R)))"
    by (simp add: fixed_env_def)
  have h3: "returncode ?P \<noteq> 0" by simp
  have s: "strip (latin1_decode (latin1_encode '' oom\<newline>'')) = ''oom''"
    by code_simp
  from failed_generation_notice [OF h1 h2 h3] s h1 h3 show ?thesis
    by (simp add: fixed_env_def)
qed

section \<open>Extracting the assistant's answer\<close>

lemma split_py_nonempty: "split_py sep acc s \<noteq> []"
  by (induction sep acc s rule: split_py.induct) (subst split_py.simps, simp)

lemma split_py_no_occurrence:
  "\<not> sublist sep s \<Longrightarrow> split_py sep acc s = [rev acc @ s]"
proof (induction sep acc s rule: split_py.induct)
  case (1 sep acc s)
  show ?case
  proof (cases "s = []")
    case True
    then show ?thesis by (subst split_py.simps) simp
  next
    case False
    then obtain c cs where s: "s = c # cs" by (cases s) auto
    from "1.prems" have np: "\<not> prefix sep s"
      using prefix_imp_sublist by blast
    from "1.prems" have "\<not> sublist sep (tl s)"
      by (auto simp: s sublist_Cons_right)
    with "1.IH"(2) [OF False] np
    have "split_py sep (hd s # acc) (tl s) = [rev (hd s # acc) @ tl s]" by blast
    then show ?thesis
      using False np by (subst split_py.simps) (simp add: s)
  qed
qed

lemma split_py_last:
  "(\<forall>p r. prefix sep (p @ sep @ r) \<and> p \<noteq> [] \<longrightarrow> length sep \<le> length p) \<Longrightarrow> sep \<noteq> [] \<Longrightarrow>
   s = p @ sep @ r \<Longrightarrow> \<not> sublist sep r \<Longrightarrow> last (split_py sep acc s) = r"
proof (induction sep acc s arbitrary: p rule: split_py.induct)
  case (1 sep acc s)
  from "1.prems"(3) "1.prems"(2) have sne: "s \<noteq> []" by simp
  show ?case
  proof (cases "prefix sep s")
    case True
    have step: "split_py sep acc s = rev acc # split_py sep [] (drop (length sep) s)"
      using sne True "1.prems"(2) by (subst split_py.simps) simp
    show ?thesis
    proof (cases "p = []")
      case True
      then have "drop (length sep) s = r" using "1.prems"(3) by simp
      then show ?thesis
        using step split_py_no_occurrence [OF "1.prems"(4), of "[]"] by simp
    next
      case False
      from True "1.prems"(3) have "prefix sep (p @ sep @ r)" by simp
      then have len: "length sep \<le> length p" using False "1.prems"(1) by blast
      then have d: "drop (length sep) s = drop (length sep) p @ sep @ r"
        using "1.prems"(3) by simp
      have "last (split_py sep [] (drop (length sep) s)) = r"
        using "1.IH"(1) [OF sne _ "1.prems"(1) "1.prems"(2) d "1.prems"(4)] True "1.prems"(2)
        by blast
      then show ?thesis using step split_py_nonempty by simp
    qed
  next
    case False
    have step: "split_py sep acc s = split_py sep (hd s # acc) (tl s)"
      using sne False by (subst split_py.simps) simp
    have pne: "p \<noteq> []" using False "1.prems"(3) by auto
    then have t: "tl s = tl p @ sep @ r" using "1.prems"(3) by simp
    have "last (split_py sep (hd s # acc) (tl s)) = r"
      using "1.IH"(2) [OF sne _ "1.prems"(1) "1.prems"(2) t "1.prems"(4)] False by blast
    then show ?thesis using step by simp
  qed
qed

lemma nth_middle:
  "length p \<le> n \<Longrightarrow> n - length p < length m \<Longrightarrow> (p @ m @ r) ! n = m ! (n - length p)"
  by (simp add: nth_append)

lemma marker_inner_chars:
  assumes "k < 13"
  shows "''### Assistant:'' ! k \<noteq> CHR '':''"
proof -
  have "take 13 ''### Assistant:'' ! k \<in> set (take 13 ''### Assistant:'')"
    using assms by (intro nth_mem) simp
  moreover have "take 13 ''### Assistant:'' ! k = ''### Assistant:'' ! k"
    using assms by (rule nth_take)
  ultimately have "''### Assistant:'' ! k \<in> set (take 13 ''### Assistant:'')" by simp
  then show ?thesis by auto
qed

lemma marker_no_overlap:
  assumes pre: "prefix ''### Assistant:'' (p @ ''### Assistant:'' @ r)" and pne: "p \<noteq> []"
  shows "length ''### Assistant:'' \<le> length p"
proof (rule ccontr)
  assume "\<not> length ''### Assistant:'' \<le> length p"
  then have lt: "length p < 14" by simp
  from pne have pos: "0 < length p" by simp
  from pre obtain zs where eq: "p @ ''### Assistant:'' @ r = ''### Assistant:'' @ zs"
    by (auto simp: prefix_def)
  have "(p @ ''### Assistant:'' @ r) ! 13 = (''### Assistant:'' @ zs) ! 13"
    by (simp only: eq)
  then have a: "(p @ ''### Assistant:'' @ r) ! 13 = CHR '':''" by simp
  have b: "(p @ ''### Assistant:'' @ r) ! 13 = ''### Assistant:'' ! (13 - length p)"
    using lt by (intro nth_middle) simp_all
  have "13 - length p < 13" using pos by simp
  from marker_inner_chars [OF this] a b show False by simp
qed

lemma assistant_response_after_marker:
  assumes "out_text = p @ ''### Assistant:'' @ r" and "\<not> sublist ''### Assistant:'' r"
  shows "assistant_response out_text = strip r"
proof -
  have nb: "\<forall>p r. prefix ''### Assistant:'' (p @ ''### Assistant:'' @ r) \<and> p \<noteq> []
              \<longrightarrow> length ''### Assistant:'' \<le> length p"
    using marker_no_overlap by blast
  have "last (split_py ''### Assistant:'' [] out_text) = r"
    using nb _ assms by (rule split_py_last) simp
  then show ?thesis by (simp add: assistant_response_def)
qed

lemma assistant_response_no_marker:
  assumes "\<not> sublist ''### Assistant:'' out_text"
  shows "assistant_response out_text = strip out_text"
  using split_py_no_occurrence [OF assms, of "[]"] by (simp add: assistant_response_def)

text \<open>
  Claim C5, as stated, fails: in the output text \<open>### Assistant: a Assistant: b\<close> the
  last occurrence of \<open>Assistant:\<close> is followed by \<open>b\<close>, but the program extracts
  \<open>a Assistant: b\<close>, because it cuts at \<open>### Assistant:\<close>.
\<close>

theorem assistant_marker_counterexample:
  "''### Assistant: a Assistant: b'' = ''### Assistant: a '' @ ''Assistant:'' @ '' b''
   \<and> \<not> sublist ''Assistant:'' '' b''
   \<and> assistant_response ''### Assistant: a Assistant: b'' = ''a Assistant: b''
   \<and> assistant_response ''### Assistant: a Assistant: b'' \<noteq> strip '' b''"
proof -
  have 1: "\<not> sublist ''Assistant:'' '' b''"
    by (simp add: sublist_Cons_right)
  have 2: "assistant_response ''### Assistant: a Assistant: b'' = ''a Assistant: b''"
    by code_simp
  have 3: "strip '' b'' = ''b''" by code_simp
  from 1 2 3 show ?thesis by simp
qed

text \<open>
  Claim C5, amended. When the process exits with zero status, the assistant's
  contribution is everything after the last occurrence of the marker
  \<open>### Assistant:\<close> in the decoded output text (the whole text when the marker does not
  occur), with surrounding whitespace trimmed. The generator yields the bytes of the
  standard output and nothing else. If the extraction is empty, the generator ends
  without an exception and writes nothing, so the stored record is the one from before
  the operation; otherwise it ends as the finalize step on the extracted text does.
\<close>

theorem assistant_extraction:
  assumes load: "load_chat_data files (chat_id req) = Inr data"
    and proc: "proc = create_subprocess_exec e (llama_command (full_prompt data (message req)))"
    and ok: "returncode proc = 0"
    and out: "out_text = decode e (stdout proc)"
  shows "(\<forall>p r. out_text = p @ ''### Assistant:'' @ r \<and> \<not> sublist ''### Assistant:'' r
            \<longrightarrow> assistant_response out_text = strip r)
       \<and> (\<not> sublist ''### Assistant:'' out_text \<longrightarrow> assistant_response out_text = strip out_text)
       \<and> yielded (stream_llama_response e files req) = map (\<lambda>b. [b]) (stdout proc)
       \<and> (assistant_response out_text = [] \<longrightarrow>
            raised (stream_llama_response e files req) = None
            \<and> files_after (stream_llama_response e files req) = meanwhile e files
            \<and> (meanwhile e files = files \<longrightarrow>
                 load_chat_data (files_after (stream_llama_response e files req)) (chat_id req)
                   = load_chat_data files (chat_id req)))
       \<and> (assistant_response out_text \<noteq> [] \<longrightarrow>
            (raised (stream_llama_response e files req),
             files_after (stream_llama_response e files req))
              = persist_turn (disk e) (meanwhile e files) req (assistant_response out_text))"
proof (intro conjI)
  show "\<forall>p r. out_text = p @ ''### Assistant:'' @ r \<and> \<not> sublist ''### Assistant:'' r
            \<longrightarrow> assistant_response out_text = strip r"
    using assistant_response_after_marker by blast
  show "\<not> sublist ''### Assistant:'' out_text \<longrightarrow> assistant_response out_text = strip out_text"
    using assistant_response_no_marker by blast
  show "yielded (stream_llama_response e files req) = map (\<lambda>b. [b]) (stdout proc)"
    using ok unfolding proc
    by (simp add: stream_llama_response_def load Let_def read_tokens_eq split: prod.splits)
  show "assistant_response out_text = [] \<longrightarrow>
            raised (stream_llama_response e files req) = None
            \<and> files_after (stream_llama_response e files req) = meanwhile e files
            \<and> (meanwhile e files = files \<longrightarrow>
                 load_chat_data (files_after (stream_llama_response e files req)) (chat_id req)
                   = load_chat_data files (chat_id req))"
    using ok unfolding proc out
    by (simp add: stream_llama_response_def load Let_def read_tokens_eq)
  show "assistant_response out_text \<noteq> [] \<longrightarrow>
            (raised (stream_llama_response e files req),
             files_after (stream_llama_response e files req))
              = persist_turn (disk e) (meanwhile e files) req (assistant_response out_text)"
    using ok unfolding proc out
    by (simp add: stream_llama_response_def load Let_def read_tokens_eq split: prod.splits)
qed

theorem assistant_extraction_witness:
  "load_chat_data [] (chat_id \<lparr>message = ''hi'', chat_id = ''abc''\<rparr>)
     = Inr \<lparr>system_prompt = None, history = Some []\<rparr>
   \<and> returncode \<lparr>stdout = latin1_encode ''### Human: hi\<newline>### Assistant: \<newline>'',
                  returncode = 0, stderr = []\<rparr> = 0
   \<and> latin1_decode (latin1_encode ''### Human: hi\<newline>### Assistant: \<newline>'')
       = ''### Human: hi\<newline>'' @ ''### Assistant:'' @ '' \<newline>''
   \<and> \<not> sublist ''### Assistant:'' '' \<newline>''
   \<and> assistant_response (latin1_decode (latin1_encode ''### Human: hi\<newline>### Assistant: \<newline>''))
       = []
   \<and> raised (stream_llama_response
        (fixed_env \<lparr>stdout = latin1_encode ''### Human: hi\<newline>### Assistant: \<newline>'',
                    returncode = 0, stderr = []\<rparr> id WriteOk)
        [] \<lparr>message = ''hi'', chat_id = ''abc''\<rparr>) = None
   \<and> files_after (stream_llama_response
        (fixed_env \<lparr>stdout = latin1_encode ''### Human: hi\<newline>### Assistant: \<newline>'',
                    returncode = 0, stderr = []\<rparr> id WriteOk)
        [] \<lparr>message = ''hi'', chat_id = ''abc''\<rparr>) = []
   \<and> \<not> sublist ''### Assistant:'' (latin1_decode (latin1_encode ''hello ''))
   \<and> assistant_response (latin1_decode (latin1_encode ''hello '')) = ''hello''
   \<and> files_after (stream_llama_response
        (fixed_env \<lparr>stdout = latin1_encode ''hello '', returncode = 0, stderr = []\<rparr> id WriteOk)
        [] \<lparr>message = ''hi'', chat_id = ''abc''\<rparr>)
       = [(''chat_history/abc.json'',
           Document \<lparr>system_prompt = None,
                     history = Some [\<lparr>user = ''hi'', assistant = ''hello''\<rparr>]\<rparr>)]"
proof -
  let ?P = "\<lparr>stdout = latin1_encode ''### Human: hi\<newline>### Assistant: \<newline>'',
             returncode = 0, stderr = []\<rparr>"
  let ?E = "fixed_env ?P id WriteOk"
  let ?Q = "\<lparr>stdout = latin1_encode ''hello '', returncode = 0, stderr = []\<rparr>"
  let ?F = "fixed_env ?Q id WriteOk"
  let ?R = "\<lparr>message = ''hi'', chat_id = ''abc''\<rparr>"
  let ?T = "latin1_decode (latin1_encode ''### Human: hi\<newline>### Assistant: \<newline>'')"
  let ?U = "latin1_decode (latin1_encode ''hello '')"
  have h1: "load_chat_data [] (chat_id ?R) = Inr \<lparr>system_prompt = None, history = Some []\<rparr>"
    by (simp add: load_empty_abc)
  have h2: "?P = create_subprocess_exec ?E
              (llama_command (full_prompt \<lparr>system_prompt = None, history = Some []\<rparr> (message ?R)))"
    by (simp add: fixed_env_def)
  have h3: "returncode ?P = 0" by simp
  have h4: "?T = decode ?E (stdout ?P)" by (simp add: fixed_env_def)
  have d: "?T = ''### Human: hi\<newline>'' @ ''### Assistant:'' @ '' \<newline>''" by code_simp
  have n: "\<not> sublist ''### Assistant:'' '' \<newline>''" by (simp add: sublist_Cons_right)
  have s: "strip '' \<newline>'' = []" by code_simp
  note t = assistant_extraction [OF h1 h2 h3 h4]
  from t d n have "assistant_response ?T = strip '' \<newline>''" by blast
  with s have e: "assistant_response ?T = []" by simp
  from t e have r: "raised (stream_llama_response ?E [] ?R) = None
      \<and> files_after (stream_llama_response ?E [] ?R) = meanwhile ?E []"
    by blast
  have g2: "?Q = create_subprocess_exec ?F
              (llama_command (full_prompt \<lparr>system_prompt = None, history = Some []\<rparr> (message ?R)))"
    by (simp add: fixed_env_def)
  have g3: "returncode ?Q = 0" by simp
  have g4: "?U = decode ?F (stdout ?Q)" by (simp add: fixed_env_def)
  have u: "?U = ''hello ''" by code_simp
  have n2: "\<not> sublist ''### Assistant:'' ?U" unfolding u by (simp add: sublist_Cons_right)
  have s2: "strip ?U = ''hello''" by code_simp
  note t2 = assistant_extraction [OF h1 g2 g3 g4]
  from t2 n2 have "assistant_response ?U = strip ?U" by blast
  with s2 have a2: "assistant_response ?U = ''hello''" by simp
  then have "assistant_response ?U \<noteq> []" by simp
  with t2 have "(raised (stream_llama_response ?F [] ?R), files_after (stream_llama_response ?F [] ?R))
      = persist_turn (disk ?F) (meanwhile ?F []) ?R (assistant_response ?U)"
    by blast
  then have f2: "files_after (stream_llama_response ?F [] ?R)
       = [(''chat_history/abc.json'',
           Document \<lparr>system_prompt = None,
                     history = Some [\<lparr>user = ''hi'', assistant = ''hello''\<rparr>]\<rparr>)]"
    unfolding a2
    by (simp add: fixed_env_def persist_turn_def load_empty_abc save_chat_data_def
        history_path_literal tail_slice_def MAX_HISTORY_MESSAGES_def)
  from h1 h3 d n e r n2 a2 f2 show ?thesis by (simp add: fixed_env_def)
qed

section \<open>Persisting a turn\<close>

lemma load_after_update:
  "load_chat_data (AList.update (get_sanitized_history_path cid) (Document d) files) cid = Inr d"
  by (simp add: load_chat_data_def Let_def path_exists_def update_conv')

lemma load_after_update_malformed:
  "load_chat_data (AList.update (get_sanitized_history_path cid) Malformed files) cid
     = Inl JSONDecodeError"
  by (simp add: load_chat_data_def Let_def path_exists_def update_conv')

lemma persist_turn_None:
  assumes "persist_turn w files req answer = (None, files')"
  obtains d h where "w = WriteOk" and "load_chat_data files (chat_id req) = Inr d"
    and "history d = Some h"
    and "files' = AList.update (get_sanitized_history_path (chat_id req))
           (Document (d\<lparr>history := Some (tail_slice MAX_HISTORY_MESSAGES
              (h @ [\<lparr>user = message req, assistant = answer\<rparr>]))\<rparr>)) files"
  using assms
  by (cases w)
     (auto simp: persist_turn_def save_chat_data_def Let_def split: sum.splits option.splits)

lemma tail_slice_length: "0 < n \<Longrightarrow> length (tail_slice n xs) \<le> n"
  by (simp add: tail_slice_def)

lemma tail_slice_snoc:
  "0 < n \<Longrightarrow> tail_slice n (tail_slice n xs @ ys) = tail_slice n (xs @ ys)"
  by (cases "n \<le> length xs") (simp_all add: tail_slice_def add.commute)

lemma turn_eta: "\<lparr>user = user t, assistant = assistant t\<rparr> = (t::turn)"
  by (cases t) simp

lemma tail_slice_append_long:
  "0 < n \<Longrightarrow> n \<le> length ys \<Longrightarrow> tail_slice n (xs @ ys) = drop (length ys - n) ys"
  by (simp add: tail_slice_def)

lemma append_turns_history:
  assumes "fst (append_turns files cid ts) = None"
    and "load_chat_data files cid = Inr d" and "history d = Some h"
  shows "load_chat_data (snd (append_turns files cid ts)) cid
           = Inr (d\<lparr>history := Some (if ts = [] then h
                                       else tail_slice MAX_HISTORY_MESSAGES (h @ ts))\<rparr>)"
  using assms
proof (induction ts arbitrary: files d h)
  case Nil
  then show ?case by simp
next
  case (Cons t ts)
  let ?req = "\<lparr>message = user t, chat_id = cid\<rparr>"
  obtain err files' where p: "persist_turn WriteOk files ?req (assistant t) = (err, files')"
    by (cases "persist_turn WriteOk files ?req (assistant t)")
  with Cons.prems(1) have err: "err = None" by (cases err) auto
  from p err obtain d0 h0 where l0: "load_chat_data files (chat_id ?req) = Inr d0"
    and h0: "history d0 = Some h0"
    and f': "files' = AList.update (get_sanitized_history_path (chat_id ?req))
           (Document (d0\<lparr>history := Some (tail_slice MAX_HISTORY_MESSAGES
              (h0 @ [\<lparr>user = message ?req, assistant = assistant t\<rparr>]))\<rparr>)) files"
    by (auto elim: persist_turn_None)
  from l0 Cons.prems(2) have d0: "d0 = d" by simp
  with h0 Cons.prems(3) have hh: "h0 = h" by simp
  let ?d1 = "d\<lparr>history := Some (tail_slice MAX_HISTORY_MESSAGES (h @ [t]))\<rparr>"
  have f1: "files' = AList.update (get_sanitized_history_path cid) (Document ?d1) files"
    using f' d0 hh by (simp add: turn_eta)
  then have l1: "load_chat_data files' cid = Inr ?d1" by (simp add: load_after_update)
  have rest: "append_turns files cid (t # ts) = append_turns files' cid ts"
    using p err by simp
  with Cons.prems(1) have ok: "fst (append_turns files' cid ts) = None" by simp
  have W: "0 < MAX_HISTORY_MESSAGES" by (simp add: MAX_HISTORY_MESSAGES_def)
  from Cons.IH [OF ok l1, of "tail_slice MAX_HISTORY_MESSAGES (h @ [t])"]
  have "load_chat_data (snd (append_turns files' cid ts)) cid
          = Inr (?d1\<lparr>history := Some (if ts = [] then tail_slice MAX_HISTORY_MESSAGES (h @ [t])
               else tail_slice MAX_HISTORY_MESSAGES (tail_slice MAX_HISTORY_MESSAGES (h @ [t]) @ ts))\<rparr>)"
    by simp
  then show ?case
    unfolding rest using tail_slice_snoc [OF W, of "h @ [t]" ts] by simp
qed

lemma append_turns_first_load:
  assumes "fst (append_turns files cid ts) = None" and "ts \<noteq> []"
  obtains d h where "load_chat_data files cid = Inr d" and "history d = Some h"
proof -
  from assms(2) obtain t ts' where ts: "ts = t # ts'" by (cases ts) auto
  let ?req = "\<lparr>message = user t, chat_id = cid\<rparr>"
  obtain err files' where p: "persist_turn WriteOk files ?req (assistant t) = (err, files')"
    by (cases "persist_turn WriteOk files ?req (assistant t)")
  with assms(1) ts have "err = None" by (cases err) auto
  with p obtain d h where "load_chat_data files (chat_id ?req) = Inr d" "history d = Some h"
    by (auto elim: persist_turn_None)
  then show ?thesis using that by simp
qed

text \<open>
  Claim C2. For every session and every run of N turns that are all persisted, with N
  greater than the window size W = 10, the history loaded after the last write has
  exactly W turns and they are the last W appended turns in their order. After any
  persisted write the loaded history has at most W turns, the last of which is the turn
  just written.
\<close>

theorem window_invariant:
  "(fst (append_turns files cid ts) = None \<and> MAX_HISTORY_MESSAGES < length ts \<longrightarrow>
      (\<exists>d. load_chat_data (snd (append_turns files cid ts)) cid = Inr d
           \<and> history d = Some (drop (length ts - MAX_HISTORY_MESSAGES) ts)
           \<and> length (drop (length ts - MAX_HISTORY_MESSAGES) ts) = MAX_HISTORY_MESSAGES))
   \<and> (persist_turn w files req answer = (None, files') \<longrightarrow>
      (\<exists>d h. load_chat_data files' (chat_id req) = Inr d \<and> history d = Some h
           \<and> length h \<le> MAX_HISTORY_MESSAGES
           \<and> last h = \<lparr>user = message req, assistant = answer\<rparr>))"
proof (intro conjI impI)
  assume a: "fst (append_turns files cid ts) = None \<and> MAX_HISTORY_MESSAGES < length ts"
  then have ne: "ts \<noteq> []" by auto
  from a obtain d h where l: "load_chat_data files cid = Inr d" and h: "history d = Some h"
    using append_turns_first_load [OF _ ne] by blast
  have W: "0 < MAX_HISTORY_MESSAGES" by (simp add: MAX_HISTORY_MESSAGES_def)
  from a have len: "MAX_HISTORY_MESSAGES \<le> length ts" by simp
  from append_turns_history [OF _ l h, of ts] a ne
  have "load_chat_data (snd (append_turns files cid ts)) cid
          = Inr (d\<lparr>history := Some (tail_slice MAX_HISTORY_MESSAGES (h @ ts))\<rparr>)"
    by simp
  then show "\<exists>d. load_chat_data (snd (append_turns files cid ts)) cid = Inr d
           \<and> history d = Some (drop (length ts - MAX_HISTORY_MESSAGES) ts)
           \<and> length (drop (length ts - MAX_HISTORY_MESSAGES) ts) = MAX_HISTORY_MESSAGES"
    using tail_slice_append_long [OF W len, of h] len by simp
next
  assume "persist_turn w files req answer = (None, files')"
  then obtain d h where f': "files' = AList.update (get_sanitized_history_path (chat_id req))
           (Document (d\<lparr>history := Some (tail_slice MAX_HISTORY_MESSAGES
              (h @ [\<lparr>user = message req, assistant = answer\<rparr>]))\<rparr>)) files"
    by (auto elim: persist_turn_None)
  have W: "0 < MAX_HISTORY_MESSAGES" by (simp add: MAX_HISTORY_MESSAGES_def)
  have "last (tail_slice MAX_HISTORY_MESSAGES (h @ [\<lparr>user = message req, assistant = answer\<rparr>]))
          = \<lparr>user = message req, assistant = answer\<rparr>"
    using W by (simp add: tail_slice_def)
  then show "\<exists>d h. load_chat_data files' (chat_id req) = Inr d \<and> history d = Some h
           \<and> length h \<le> MAX_HISTORY_MESSAGES
           \<and> last h = \<lparr>user = message req, assistant = answer\<rparr>"
    unfolding f' using tail_slice_length [OF W] by (simp add: load_after_update)
qed

theorem window_invariant_witness:
  "fst (append_turns [] ''abc'' eleven_turns) = None
   \<and> MAX_HISTORY_MESSAGES < length eleven_turns
   \<and> (\<exists>d. load_chat_data (snd (append_turns [] ''abc'' eleven_turns)) ''abc'' = Inr d
         \<and> history d = Some (tl eleven_turns))
   \<and> persist_turn WriteOk [] \<lparr>message = ''hi'', chat_id = ''abc''\<rparr> ''hey''
       = (None, [(''chat_history/abc.json'',
                  Document \<lparr>system_prompt = None,
                            history = Some [\<lparr>user = ''hi'', assistant = ''hey''\<rparr>]\<rparr>)])
   \<and> (\<exists>d h. load_chat_data [(''chat_history/abc.json'',
                  Document \<lparr>system_prompt = None,
                            history = Some [\<lparr>user = ''hi'', assistant = ''hey''\<rparr>]\<rparr>)] ''abc'' = Inr d
         \<and> history d = Some h \<and> length h \<le> MAX_HISTORY_MESSAGES)"
proof -
  have a: "fst (append_turns [] ''abc'' eleven_turns) = None" by code_simp
  have b: "MAX_HISTORY_MESSAGES < length eleven_turns" by code_simp
  have c: "drop (length eleven_turns - MAX_HISTORY_MESSAGES) eleven_turns = tl eleven_turns"
    by code_simp
  have p: "persist_turn WriteOk [] \<lparr>message = ''hi'', chat_id = ''abc''\<rparr> ''hey''
       = (None, [(''chat_history/abc.json'',
                  Document \<lparr>system_prompt = None,
                            history = Some [\<lparr>user = ''hi'', assistant = ''hey''\<rparr>]\<rparr>)])"
    by (simp add: persist_turn_def load_empty_abc save_chat_data_def history_path_literal
        tail_slice_def MAX_HISTORY_MESSAGES_def)
  note t = window_invariant [where files = "[]" and cid = "''abc''" and ts = eleven_turns and w = WriteOk
      and req = "\<lparr>message = ''hi'', chat_id = ''abc''\<rparr>" and answer = "''hey''"
      and files' = "[(''chat_history/abc.json'',
                  Document \<lparr>system_prompt = None,
                            history = Some [\<lparr>user = ''hi'', assistant = ''hey''\<rparr>]\<rparr>)]"]
  from t a b c have 1: "\<exists>d. load_chat_data (snd (append_turns [] ''abc'' eleven_turns)) ''abc'' = Inr d
         \<and> history d = Some (tl eleven_turns)"
    by auto
  from t p have 2: "\<exists>d h. load_chat_data [(''chat_history/abc.json'',
                  Document \<lparr>system_prompt = None,
                            history = Some [\<lparr>user = ''hi'', assistant = ''hey''\<rparr>]\<rparr>)] ''abc'' = Inr d
         \<and> history d = Some h \<and> length h \<le> MAX_HISTORY_MESSAGES"
    by auto
  from a b 1 p 2 show ?thesis by blast
qed



section \<open>Admission of new sessions\<close>

lemma sessions_le_entries: "length (list_chats files) \<le> length (listdir files HISTORY_DIR)"
  by (simp add: list_chats_def)

lemma full_store_count: "length (list_chats full_store) = 100"
  by code_simp

lemma full_store_new: "\<not> path_exists full_store (get_sanitized_history_path ''new'')"
  by code_simp

text \<open>
  Claim C6. When the number of stored sessions equals the maximum of 100, a chat
  request for a session id without a file is rejected with status 429 and the files are
  left as they were, so the number of sessions is still the maximum; a request for an id
  whose file exists is never answered with that rejection.
\<close>

theorem cap_enforcement:
  assumes full: "length (list_chats files) = MAX_TOTAL_CHATS"
  shows "(\<not> path_exists files (get_sanitized_history_path (chat_id req)) \<longrightarrow>
            chat e files req dry_run
              = (Inl (HTTPException 429 ''The maximum number of chat sessions has been reached.''),
                 files)
            \<and> length (list_chats (snd (chat e files req dry_run))) = MAX_TOTAL_CHATS)
       \<and> (path_exists files (get_sanitized_history_path (chat_id req)) \<longrightarrow>
            (\<forall>detail. fst (chat e files req dry_run) \<noteq> Inl (HTTPException 429 detail)))"
proof (intro conjI impI)
  assume new: "\<not> path_exists files (get_sanitized_history_path (chat_id req))"
  have "MAX_TOTAL_CHATS \<le> length (listdir files HISTORY_DIR)"
    using full sessions_le_entries [of files] by simp
  with new show "chat e files req dry_run
              = (Inl (HTTPException 429 ''The maximum number of chat sessions has been reached.''),
                 files)"
    by (simp add: chat_def Let_def)
  then show "length (list_chats (snd (chat e files req dry_run))) = MAX_TOTAL_CHATS"
    using full by simp
next
  assume old: "path_exists files (get_sanitized_history_path (chat_id req))"
  show "\<forall>detail. fst (chat e files req dry_run) \<noteq> Inl (HTTPException 429 detail)"
  proof (cases "load_chat_data files (chat_id req)")
    case (Inl err)
    then have "err = JSONDecodeError"
      by (auto simp: load_chat_data_def Let_def split: if_splits option.splits file_content.splits)
    with Inl old show ?thesis by (simp add: chat_def Let_def)
  next
    case (Inr d)
    with old show ?thesis by (simp add: chat_def Let_def)
  qed
qed

theorem cap_enforcement_witness:
  "length (list_chats full_store) = MAX_TOTAL_CHATS
   \<and> \<not> path_exists full_store (get_sanitized_history_path (chat_id \<lparr>message = ''hi'', chat_id = ''new''\<rparr>))
   \<and> chat (fixed_env \<lparr>stdout = [], returncode = 0, stderr = []\<rparr> id WriteOk) full_store
        \<lparr>message = ''hi'', chat_id = ''new''\<rparr> False
       = (Inl (HTTPException 429 ''The maximum number of chat sessions has been reached.''),
          full_store)
   \<and> path_exists full_store (get_sanitized_history_path (chat_id \<lparr>message = ''hi'', chat_id = ''42''\<rparr>))
   \<and> fst (chat (fixed_env \<lparr>stdout = [], returncode = 0, stderr = []\<rparr> id WriteOk) full_store
        \<lparr>message = ''hi'', chat_id = ''42''\<rparr> True)
       \<noteq> Inl (HTTPException 429 ''The maximum number of chat sessions has been reached.'')"
proof -
  have h: "length (list_chats full_store) = MAX_TOTAL_CHATS"
    by (simp add: full_store_count MAX_TOTAL_CHATS_def)
  have n: "\<not> path_exists full_store
              (get_sanitized_history_path (chat_id \<lparr>message = ''hi'', chat_id = ''new''\<rparr>))"
    using full_store_new by simp
  have o: "path_exists full_store
              (get_sanitized_history_path (chat_id \<lparr>message = ''hi'', chat_id = ''42''\<rparr>))"
    by code_simp
  from cap_enforcement [OF h] n
  have 1: "chat (fixed_env \<lparr>stdout = [], returncode = 0, stderr = []\<rparr> id WriteOk) full_store
        \<lparr>message = ''hi'', chat_id = ''new''\<rparr> False
       = (Inl (HTTPException 429 ''The maximum number of chat sessions has been reached.''),
          full_store)"
    by blast
  from cap_enforcement [OF h] o
  have 2: "fst (chat (fixed_env \<lparr>stdout = [], returncode = 0, stderr = []\<rparr> id WriteOk) full_store
        \<lparr>message = ''hi'', chat_id = ''42''\<rparr> True)
       \<noteq> Inl (HTTPException 429 ''The maximum number of chat sessions has been reached.'')"
    by blast
  from h n 1 o 2 show ?thesis by blast
qed

section \<open>Writes that fail\<close>

text \<open>
  Claim C7, as stated, fails: with a stored record for \<open>abc\<close>, a save whose
  \<open>json.dump\<close> raises after \<open>open\<close> has truncated the file leaves a file that
  \<open>load_chat_data\<close> cannot parse; the load that follows returns neither the old nor the
  new record.
\<close>

theorem save_interrupted_counterexample:
  "load_chat_data
     [(''chat_history/abc.json'',
       Document \<lparr>system_prompt = None, history = Some [\<lparr>user = ''hi'', assistant = ''hey''\<rparr>]\<rparr>)]
     ''abc''
     = Inr \<lparr>system_prompt = None, history = Some [\<lparr>user = ''hi'', assistant = ''hey''\<rparr>]\<rparr>
   \<and> fst (save_chat_data DumpFails
       [(''chat_history/abc.json'',
         Document \<lparr>system_prompt = None, history = Some [\<lparr>user = ''hi'', assistant = ''hey''\<rparr>]\<rparr>)]
       ''abc'' \<lparr>system_prompt = None, history = Some []\<rparr>) = Some OSError
   \<and> load_chat_data
       (snd (save_chat_data DumpFails
         [(''chat_history/abc.json'',
           Document \<lparr>system_prompt = None, history = Some [\<lparr>user = ''hi'', assistant = ''hey''\<rparr>]\<rparr>)]
         ''abc'' \<lparr>system_prompt = None, history = Some []\<rparr>)) ''abc''
     = Inl JSONDecodeError"
  by (simp add: load_chat_data_def save_chat_data_def history_path_literal path_exists_def)

text \<open>
  Claim C7, amended. A save whose \<open>open\<close> fails raises and leaves the files as they
  were; a save that completes replaces the session's record, and the load that follows
  returns the complete new record. A save whose write fails after the file was opened
  raises and leaves a truncated file: the old record is lost and the load that follows
  raises the parser's exception.
\<close>

theorem save_chat_data_outcomes:
  "save_chat_data OpenFails files cid d = (Some OSError, files)
   \<and> fst (save_chat_data WriteOk files cid d) = None
   \<and> load_chat_data (snd (save_chat_data WriteOk files cid d)) cid = Inr d
   \<and> fst (save_chat_data DumpFails files cid d) = Some OSError
   \<and> load_chat_data (snd (save_chat_data DumpFails files cid d)) cid = Inl JSONDecodeError"
  by (simp add: save_chat_data_def Let_def load_after_update load_after_update_malformed)

end
